theory Spec2Isabelle
  imports Main "HOL-Library.Word"
begin

section \<open>CelestixLCD: the HID report layer of \<^verbatim>\<open>celestixlcd.py\<close>\<close>

text \<open>
  The driver builds byte strings and hands them to a \<^verbatim>\<open>hid.Device\<close>; it reads
  key reports from the same device. The embedding follows the Python method by method.
  \<^item> A \<^verbatim>\<open>bytes\<close> value is a list of 8-bit words.
  \<^item> A \<^verbatim>\<open>str\<close> argument is the list of its Unicode code points, so that a character
    outside Latin-1 is one element, as it is one element of the Python string. String
    constants of the source (key names, assertion messages) are HOL strings.
  \<^item> Python integers are \<open>int\<close>.
  \<^item> An exception is a value of \<open>exn\<close>; a method returns \<open>exn + result\<close>. An
    \<^verbatim>\<open>assert\<close> is executed, as the interpreter does unless it is told to optimise.
\<close>

subsection \<open>Values and exceptions\<close>

type_synonym byte = "8 word"
type_synonym bytes = "byte list"
type_synonym str = "nat list"

datatype exn =
    AssertionError string
  | OverflowError
  | AttributeError
  | RuntimeError string
  | HIDException string
  | OSError string

text \<open>\<^verbatim>\<open>n.to_bytes(1, 'big')\<close>: one byte, \<^verbatim>\<open>OverflowError\<close> outside 0..255.\<close>

definition to_bytes :: "int \<Rightarrow> exn + bytes" where
  "to_bytes n = (if n < 0 \<or> 255 < n then Inl OverflowError else Inr [word_of_int n])"

text \<open>\<^verbatim>\<open>bytes(n)\<close>: \<open>n\<close> zero bytes.\<close>

definition zero_bytes :: "nat \<Rightarrow> bytes" where
  "zero_bytes n = replicate n 0"

text \<open>
  \<^verbatim>\<open>message.encode('iso-8859-1', 'replace')\<close>: a code point below 256 is its own byte,
  any other character becomes one \<^verbatim>\<open>?\<close> (0x3F).
\<close>

definition encode_char :: "nat \<Rightarrow> byte" where
  "encode_char c = (if c < 256 then of_nat c else 0x3F)"

definition encode :: "str \<Rightarrow> bytes" where
  "encode message = map encode_char message"

text \<open>The class constants.\<close>

definition kbd_report :: bytes where "kbd_report = [0x01]"
definition lcd_report :: bytes where "lcd_report = [0x02]"
definition cmd_text :: bytes where "cmd_text = [0x00]"
definition cmd_clear :: bytes where "cmd_clear = [0x01]"
definition cmd_char :: bytes where "cmd_char = [0x03]"

subsection \<open>The \<^verbatim>\<open>hid\<close> module and \<^verbatim>\<open>subprocess.call\<close>\<close>

text \<open>
  Both are libraries outside the repository. The driver is modelled over any
  implementation of them: \<open>'p\<close> is a device path, \<open>'h\<close> the state of a
  \<^verbatim>\<open>hid.Device\<close> object. Reading, writing and opening return the new state of the
  object, or the exception they raise. Closing releases the handle and returns: the
  transport has an error answer for opening, reading and writing, and none for closing.
\<close>

record ('p, 'h) hid =
  hid_enumerate :: "int \<Rightarrow> int \<Rightarrow> 'p list"
  hid_Device :: "'p \<Rightarrow> exn + 'h"
  hid_read :: "'h \<Rightarrow> int \<Rightarrow> int option \<Rightarrow> exn + (bytes \<times> 'h)"
  hid_write :: "'h \<Rightarrow> bytes \<Rightarrow> exn + 'h"
  hid_close :: "'h \<Rightarrow> 'h"

text \<open>
  \<^verbatim>\<open>subprocess.call(args)\<close> returns the exit status of the command, or raises when the
  command cannot be started.
\<close>

type_synonym subprocess = "string list \<Rightarrow> exn + int"

subsection \<open>The object\<close>

text \<open>
  The attributes of a \<^verbatim>\<open>CelestixLCD\<close> object; \<open>None\<close> is an attribute that was never
  assigned, and reading it raises \<^verbatim>\<open>AttributeError\<close>.
\<close>

record ('p, 'h) celestix =
  vid :: "int option"
  pid :: "int option"
  path :: "'p option"
  device :: "'h option"




text \<open>\<^verbatim>\<open>self._device.write(data)\<close>, the last statement of every writing method.\<close>

definition device_write :: "('p, 'h) hid \<Rightarrow> ('p, 'h) celestix \<Rightarrow> bytes \<Rightarrow> exn + ('p, 'h) celestix" where
  "device_write H self data =
    (case device self of
       None \<Rightarrow> Inl AttributeError
     | Some h \<Rightarrow>
         (case hid_write H h data of
            Inl e \<Rightarrow> Inl e
          | Inr h' \<Rightarrow> Inr (self\<lparr>device := Some h'\<rparr>)))"

text \<open>\<^verbatim>\<open>self._device.read(size, timeout)\<close>.\<close>

definition device_read ::
  "('p, 'h) hid \<Rightarrow> ('p, 'h) celestix \<Rightarrow> int \<Rightarrow> int option \<Rightarrow> exn + (bytes \<times> ('p, 'h) celestix)" where
  "device_read H self sz timeout =
    (case device self of
       None \<Rightarrow> Inl AttributeError
     | Some h \<Rightarrow>
         (case hid_read H h sz timeout of
            Inl e \<Rightarrow> Inl e
          | Inr (data, h') \<Rightarrow> Inr (data, self\<lparr>device := Some h'\<rparr>)))"

subsection \<open>\<^verbatim>\<open>write_line\<close>\<close>

text \<open>Lines 113 to 128: the packet, or the exception raised while building it.\<close>

definition write_line_payload :: "str \<Rightarrow> int \<Rightarrow> exn + bytes" where
  "write_line_payload string line =
    (let message = take 40 string
     in if \<not> (0 \<le> line \<and> line \<le> 1) then Inl (AssertionError ''Line must be 0 or 1.'')
        else
          let cursor_pos = 0;
              len = 40;
              endpad = replicate (nat (40 - int (length message))) (0x20 :: byte)
          in case to_bytes cursor_pos of Inl e \<Rightarrow> Inl e | Inr c \<Rightarrow>
             (case to_bytes line of Inl e \<Rightarrow> Inl e | Inr l \<Rightarrow>
             (case to_bytes len of Inl e \<Rightarrow> Inl e | Inr n \<Rightarrow>
                Inr (lcd_report @ cmd_text @ c @ l @ n @ zero_bytes 3 @ encode message @ endpad))))"

definition write_line ::
  "('p, 'h) hid \<Rightarrow> ('p, 'h) celestix \<Rightarrow> str \<Rightarrow> int \<Rightarrow> exn + ('p, 'h) celestix" where
  "write_line H self string line =
    (case write_line_payload string line of
       Inl e \<Rightarrow> Inl e
     | Inr payload \<Rightarrow> device_write H self payload)"

subsection \<open>\<^verbatim>\<open>write_string\<close>\<close>

definition write_string_payload :: "str \<Rightarrow> int \<Rightarrow> int \<Rightarrow> exn + bytes" where
  "write_string_payload string line cursor =
    (let message = take 40 string
     in if \<not> (0 \<le> line \<and> line \<le> 1) then Inl (AssertionError ''Line must be 0 or 1'')
        else if \<not> (0 \<le> cursor \<and> cursor \<le> 39) then Inl (AssertionError ''Cursor must be 0-39'')
        else
          let len = int (length message)
          in case to_bytes cursor of Inl e \<Rightarrow> Inl e | Inr c \<Rightarrow>
             (case to_bytes line of Inl e \<Rightarrow> Inl e | Inr l \<Rightarrow>
             (case to_bytes len of Inl e \<Rightarrow> Inl e | Inr n \<Rightarrow>
                Inr (lcd_report @ cmd_text @ c @ l @ n @ zero_bytes 3 @ encode message))))"

definition write_string ::
  "('p, 'h) hid \<Rightarrow> ('p, 'h) celestix \<Rightarrow> str \<Rightarrow> int \<Rightarrow> int \<Rightarrow> exn + ('p, 'h) celestix" where
  "write_string H self string line cursor =
    (case write_string_payload string line cursor of
       Inl e \<Rightarrow> Inl e
     | Inr payload \<Rightarrow> device_write H self payload)"

subsection \<open>\<^verbatim>\<open>create_char\<close>\<close>

text \<open>The loop over the bitmap: \<open>charData\<close> grows by one byte per row.\<close>

fun char_rows :: "bytes \<Rightarrow> int list \<Rightarrow> exn + bytes" where
  "char_rows charData [] = Inr charData"
| "char_rows charData (row # bitmap) =
    (case to_bytes row of
       Inl e \<Rightarrow> Inl e
     | Inr b \<Rightarrow> char_rows (charData @ b) bitmap)"

definition create_char_payload :: "int \<Rightarrow> int list \<Rightarrow> exn + bytes" where
  "create_char_payload location bitmap =
    (if \<not> (0 \<le> location \<and> location \<le> 7) then Inl (AssertionError ''Only locations 0-7 can be used'')
     else if \<not> (1 \<le> length bitmap \<and> length bitmap \<le> 48)
       then Inl (AssertionError ''Bitmap should have 1-48 rows'')
     else
       let startpos = location * 8
       in case char_rows [] bitmap of Inl e \<Rightarrow> Inl e | Inr charData \<Rightarrow>
          (let len = int (length charData)
           in case to_bytes startpos of Inl e \<Rightarrow> Inl e | Inr sp \<Rightarrow>
              (case to_bytes len of Inl e \<Rightarrow> Inl e | Inr n \<Rightarrow>
                 Inr (lcd_report @ cmd_char @ sp @ [0x00] @ n @ zero_bytes 3 @ charData))))"

definition create_char ::
  "('p, 'h) hid \<Rightarrow> ('p, 'h) celestix \<Rightarrow> int \<Rightarrow> int list \<Rightarrow> exn + ('p, 'h) celestix" where
  "create_char H self location bitmap =
    (case create_char_payload location bitmap of
       Inl e \<Rightarrow> Inl e
     | Inr payload \<Rightarrow> device_write H self payload)"

subsection \<open>\<^verbatim>\<open>clear\<close>, \<^verbatim>\<open>writeRaw\<close>, \<^verbatim>\<open>readRaw\<close>\<close>

definition clear_command :: bytes where
  "clear_command = lcd_report @ cmd_clear @ zero_bytes 6"

definition clear :: "('p, 'h) hid \<Rightarrow> ('p, 'h) celestix \<Rightarrow> exn + ('p, 'h) celestix" where
  "clear H self = device_write H self clear_command"





subsection \<open>\<^verbatim>\<open>read\<close>\<close>

text \<open>
  What \<^verbatim>\<open>read\<close> does besides returning: the commands it ran through
  \<^verbatim>\<open>subprocess.call\<close> and the values it printed.
\<close>

datatype effect = Called "string list" | Printed bytes

text \<open>
  Lines 76 to 86, the comparison chain on the report just read: the value returned
  (\<open>None\<close> where the method falls off its end) and the effects, or the exception of
  \<^verbatim>\<open>subprocess.call\<close>.
\<close>

definition beep_call :: "subprocess \<Rightarrow> bool \<Rightarrow> string list \<Rightarrow> string \<Rightarrow> exn + (string option \<times> effect list)" where
  "beep_call call beep args key =
    (if beep then
       (case call args of
          Inl e \<Rightarrow> Inl e
        | Inr status \<Rightarrow> Inr (Some key, [Called args]))
     else Inr (Some key, []))"

definition read_keycode :: "subprocess \<Rightarrow> bytes \<Rightarrow> bool \<Rightarrow> exn + (string option \<times> effect list)" where
  "read_keycode call keycode beep =
    (if keycode = [0x01, 0x02, 0x3A] then
       beep_call call beep [''/usr/bin/beep'', ''-f 1000'', ''-l 20''] ''select''
     else if keycode = [0x01, 0x02, 0x3B] then
       beep_call call beep [''/usr/bin/beep'', ''-f 500'', ''-l 10''] ''right''
     else if keycode = [0x01, 0x02, 0x3C] then
       beep_call call beep [''/usr/bin/beep'', ''-f 500'', ''-l 10''] ''left''
     else Inr (None, [Printed keycode]))"

definition read ::
  "('p, 'h) hid \<Rightarrow> subprocess \<Rightarrow> ('p, 'h) celestix \<Rightarrow> int option \<Rightarrow> bool
     \<Rightarrow> exn + (string option \<times> effect list \<times> ('p, 'h) celestix)" where
  "read H call self timeout beep =
    (case device_read H self 6 timeout of
       Inl e \<Rightarrow> Inl e
     | Inr (keycode, self') \<Rightarrow>
         (case read_keycode call keycode beep of
            Inl e \<Rightarrow> Inl e
          | Inr (res, out) \<Rightarrow> Inr (res, out, self')))"

subsection \<open>\<^verbatim>\<open>close\<close>\<close>

text \<open>
  \<^verbatim>\<open>if self._device:\<close> reads the attribute, which raises when it was never assigned,
  and tests the object. A \<^verbatim>\<open>hid.Device\<close> object is true, as is every instance of a class
  that defines neither \<^verbatim>\<open>__bool__\<close> nor \<^verbatim>\<open>__len__\<close>, so the device's \<^verbatim>\<open>close\<close> is
  called whenever the attribute is there. The attribute keeps naming the same object.
\<close>

definition close :: "('p, 'h) hid \<Rightarrow> ('p, 'h) celestix \<Rightarrow> exn + ('p, 'h) celestix" where
  "close H self =
    (case device self of
       None \<Rightarrow> Inl AttributeError
     | Some h \<Rightarrow> Inr (self\<lparr>device := Some (hid_close H h)\<rparr>))"

subsection \<open>A transport in memory\<close>

text \<open>
  The theorems below hold for every implementation of the \<^verbatim>\<open>hid\<close> module. To run the
  driver on concrete inputs, here is one: a device is a flag, a queue of reports waiting to
  be read and the list of reports written so far. \<open>mock_hid\<close> refuses to read and to
  write a closed device; \<open>lenient_hid\<close> does not look at the flag.
\<close>

record mock_device =
  is_open :: bool
  inbox :: "bytes list"
  outbox :: "bytes list"

definition mock_hid :: "(nat, mock_device) hid" where
  "mock_hid =
    \<lparr>hid_enumerate = (\<lambda>v p. if v = 0x0CB6 \<and> p = 0x0002 then [0] else []),
     hid_Device = (\<lambda>p. Inr \<lparr>is_open = True, inbox = [], outbox = []\<rparr>),
     hid_read = (\<lambda>h n t.
       if is_open h then
         (case inbox h of
            [] \<Rightarrow> Inr ([], h)
          | r # rs \<Rightarrow> Inr (take (nat n) r, h\<lparr>inbox := rs\<rparr>))
       else Inl (HIDException ''device closed'')),
     hid_write = (\<lambda>h data.
       if is_open h then Inr (h\<lparr>outbox := outbox h @ [data]\<rparr>)
       else Inl (HIDException ''device closed'')),
     hid_close = (\<lambda>h. h\<lparr>is_open := False\<rparr>)\<rparr>"


definition plugged :: "bytes list \<Rightarrow> (nat, mock_device) celestix" where
  "plugged reports =
    \<lparr>vid = Some 0x0CB6, pid = Some 0x0002, path = Some 0,
     device = Some \<lparr>is_open = True, inbox = reports, outbox = []\<rparr>\<rparr>"


definition beep_installed :: subprocess where
  "beep_installed args = Inr 0"

definition beep_missing :: subprocess where
  "beep_missing args = Inl (OSError ''No such file or directory'')"

subsection \<open>Abbreviations of the statements\<close>

text \<open>The key reports that \<^verbatim>\<open>read\<close> compares with.\<close>

definition key_reports :: "bytes set" where
  "key_reports = {[0x01, 0x02, 0x3A], [0x01, 0x02, 0x3B], [0x01, 0x02, 0x3C]}"

text \<open>The value \<^verbatim>\<open>read\<close> returns, or the exception it raises, without the effects.\<close>

definition returned :: "exn + ('a \<times> 'b) \<Rightarrow> exn + 'a" where
  "returned r = map_sum id fst r"

section \<open>Properties\<close>

subsection \<open>Auxiliary facts\<close>

lemma length_encode: "length (encode m) = length m"
  by (simp add: encode_def)

lemma byte_of_nat: "n < 256 \<Longrightarrow> unat (of_nat n :: byte) = n"
  by (simp add: unat_of_nat)

lemma byte_of_int: "0 \<le> k \<Longrightarrow> k < 256 \<Longrightarrow> uint (word_of_int k :: byte) = k"
  by (simp add: uint_word_of_int)

lemma write_line_payload_eq:
  assumes "line = 0 \<or> line = 1"
  shows "write_line_payload string line =
    Inr ([0x02, 0x00, 0x00, word_of_int line, 40, 0x00, 0x00, 0x00]
         @ encode (take 40 string) @ replicate (40 - length (take 40 string)) 0x20)"
  using assms
  by (auto simp: write_line_payload_def to_bytes_def lcd_report_def cmd_text_def zero_bytes_def
      Let_def numeral_eq_Suc)

lemma write_string_payload_eq:
  assumes "line = 0 \<or> line = 1" and "0 \<le> cursor" and "cursor \<le> 39"
  shows "write_string_payload string line cursor =
    Inr ([0x02, 0x00, word_of_int cursor, word_of_int line, of_nat (min (length string) 40),
          0x00, 0x00, 0x00] @ encode (take 40 string))"
  using assms
  by (auto simp: write_string_payload_def to_bytes_def lcd_report_def cmd_text_def zero_bytes_def
      Let_def numeral_eq_Suc min_def)

lemma char_rows_ok:
  "\<forall>row \<in> set bitmap. 0 \<le> row \<and> row \<le> 255 \<Longrightarrow>
     char_rows charData bitmap = Inr (charData @ map word_of_int bitmap)"
  by (induction bitmap arbitrary: charData) (simp_all add: to_bytes_def)

lemma create_char_payload_eq:
  assumes "0 \<le> location" and "location \<le> 7"
    and "1 \<le> length bitmap" and "length bitmap \<le> 48"
    and "\<forall>row \<in> set bitmap. 0 \<le> row \<and> row \<le> 255"
  shows "create_char_payload location bitmap =
    Inr ([0x02, 0x03, word_of_int (location * 8), 0x00, of_nat (length bitmap), 0x00, 0x00, 0x00]
         @ map word_of_int bitmap)"
  using assms
  by (simp add: create_char_payload_def char_rows_ok to_bytes_def lcd_report_def cmd_char_def
      zero_bytes_def Let_def numeral_eq_Suc)

lemma read_keycode_silent:
  "read_keycode call keycode False =
     Inr (if keycode = [0x01, 0x02, 0x3A] then (Some ''select'', [])
          else if keycode = [0x01, 0x02, 0x3B] then (Some ''right'', [])
          else if keycode = [0x01, 0x02, 0x3C] then (Some ''left'', [])
          else (None, [Printed keycode]))"
  by (simp add: read_keycode_def beep_call_def)

lemma read_keycode_unknown:
  "keycode \<notin> key_reports \<Longrightarrow> read_keycode call keycode beep = Inr (None, [Printed keycode])"
  by (simp add: read_keycode_def key_reports_def)

lemma read_keycode_value:
  assumes "read_keycode call keycode beep = Inr (res, out)"
  shows "res = (if keycode = [0x01, 0x02, 0x3A] then Some ''select''
          else if keycode = [0x01, 0x02, 0x3B] then Some ''right''
          else if keycode = [0x01, 0x02, 0x3C] then Some ''left''
          else None)"
  using assms
  by (auto simp: read_keycode_def beep_call_def split: if_splits sum.splits)

lemma read_after_device_read:
  "device_read H self 6 timeout = Inr (keycode, self') \<Longrightarrow>
     read H call self timeout beep =
       (case read_keycode call keycode beep of
          Inl e \<Rightarrow> Inl e
        | Inr (res, out) \<Rightarrow> Inr (res, out, self'))"
  by (simp add: read_def)

lemma mock_read:
  "device_read mock_hid (plugged (r # rs)) 6 timeout = Inr (take 6 r, plugged rs)"
  by (simp add: device_read_def mock_hid_def plugged_def)





lemma isl_device_read:
  "device self = Some h \<Longrightarrow> isl (device_read H self n timeout) \<longleftrightarrow> isl (hid_read H h n timeout)"
  by (simp add: device_read_def split: sum.splits)



subsection \<open>\<^verbatim>\<open>write_line\<close>: the full-line report\<close>

text \<open>
  Claim C1. For every string and for line 0 or 1, \<^verbatim>\<open>write_line\<close> builds a packet of 48
  bytes and writes it to the device: the header 02 00 00 line 28 00 00 00 (cursor 0, length
  40) and then 40 bytes, which are the first 40 characters of the string, each as its
  Latin-1 byte or as \<^verbatim>\<open>?\<close> when it has none, followed by spaces up to 40. No exception is
  raised while the packet is built.
\<close>

theorem write_line_report:
  assumes "line = 0 \<or> line = 1"
  shows "\<exists>payload.
      write_line_payload string line =
        Inr ([0x02, 0x00, 0x00, word_of_int line, 40, 0x00, 0x00, 0x00] @ payload)
    \<and> uint (word_of_int line :: byte) = line
    \<and> length ([0x02, 0x00, 0x00, word_of_int line, 40, 0x00, 0x00, 0x00] @ payload) = 48
    \<and> length payload = 40
    \<and> (\<forall>i < 40. payload ! i = (if i < length string then encode_char (string ! i) else 0x20))
    \<and> write_line H self string line =
        device_write H self ([0x02, 0x00, 0x00, word_of_int line, 40, 0x00, 0x00, 0x00] @ payload)"
proof -
  let ?p = "encode (take 40 string) @ replicate (40 - length (take 40 string)) (0x20 :: byte)"
  have eq: "write_line_payload string line =
      Inr ([0x02, 0x00, 0x00, word_of_int line, 40, 0x00, 0x00, 0x00] @ ?p)"
    by (rule write_line_payload_eq [OF assms])
  have l: "uint (word_of_int line :: byte) = line"
    using assms by (auto simp: byte_of_int)
  have len: "length ?p = 40"
    by (simp add: length_encode)
  have nth: "\<forall>i < 40. ?p ! i = (if i < length string then encode_char (string ! i) else 0x20)"
    by (auto simp: nth_append length_encode encode_def)
  have wr: "write_line H self string line =
      device_write H self ([0x02, 0x00, 0x00, word_of_int line, 40, 0x00, 0x00, 0x00] @ ?p)"
    by (simp add: write_line_def eq)
  from eq l len nth wr show ?thesis by (intro exI [of _ ?p]) simp
qed

theorem write_line_report_witness:
  "write_line_payload [72, 8364, 233] 1 =
     Inr ([0x02, 0x00, 0x00, 1, 40, 0x00, 0x00, 0x00] @ [72, 0x3F, 233] @ replicate 37 0x20)
   \<and> write_line_payload (replicate 45 120) 0 =
     Inr ([0x02, 0x00, 0x00, 0, 40, 0x00, 0x00, 0x00] @ replicate 40 120)
   \<and> write_line mock_hid (plugged []) [72, 8364, 233] 1 =
       device_write mock_hid (plugged [])
         ([0x02, 0x00, 0x00, 1, 40, 0x00, 0x00, 0x00] @ [72, 0x3F, 233] @ replicate 37 0x20)"
  using write_line_report [where line = 1 and string = "[72, 8364, 233]"
      and H = mock_hid and self = "plugged []"]
  by (simp add: write_line_def write_line_payload_def to_bytes_def lcd_report_def
      cmd_text_def zero_bytes_def encode_def encode_char_def numeral_eq_Suc)

subsection \<open>\<^verbatim>\<open>write_string\<close>: the partial report\<close>

text \<open>
  Claim C2, as the code has it. For every string, line 0 or 1 and cursor 0 to 39,
  \<^verbatim>\<open>write_string\<close> writes the header 02 00 cursor line length 00 00 00 followed by the
  bytes of the first 40 characters of the string and nothing after them. The length field
  is the number of those bytes, the smaller of the length of the string and 40: the
  string is cut before its length is taken.
\<close>

theorem write_string_report:
  assumes "line = 0 \<or> line = 1" and "0 \<le> cursor" and "cursor \<le> 39"
  shows "\<exists>payload.
      write_string_payload string line cursor =
        Inr ([0x02, 0x00, word_of_int cursor, word_of_int line, of_nat (min (length string) 40),
              0x00, 0x00, 0x00] @ payload)
    \<and> uint (word_of_int cursor :: byte) = cursor
    \<and> uint (word_of_int line :: byte) = line
    \<and> unat (of_nat (min (length string) 40) :: byte) = min (length string) 40
    \<and> length payload = min (length string) 40
    \<and> (\<forall>i < length payload. payload ! i = encode_char (string ! i))
    \<and> write_string H self string line cursor =
        device_write H self
          ([0x02, 0x00, word_of_int cursor, word_of_int line, of_nat (min (length string) 40),
            0x00, 0x00, 0x00] @ payload)"
proof -
  let ?p = "encode (take 40 string)"
  have eq: "write_string_payload string line cursor =
      Inr ([0x02, 0x00, word_of_int cursor, word_of_int line, of_nat (min (length string) 40),
            0x00, 0x00, 0x00] @ ?p)"
    by (rule write_string_payload_eq [OF assms])
  have c: "uint (word_of_int cursor :: byte) = cursor"
    using assms by (simp add: byte_of_int)
  have l: "uint (word_of_int line :: byte) = line"
    using assms by (auto simp: byte_of_int)
  have n: "unat (of_nat (min (length string) 40) :: byte) = min (length string) 40"
    by (rule byte_of_nat) simp
  have len: "length ?p = min (length string) 40"
    by (simp add: length_encode)
  have nth: "\<forall>i < length ?p. ?p ! i = encode_char (string ! i)"
    by (simp add: encode_def)
  have wr: "write_string H self string line cursor =
      device_write H self
        ([0x02, 0x00, word_of_int cursor, word_of_int line, of_nat (min (length string) 40),
          0x00, 0x00, 0x00] @ ?p)"
    by (simp add: write_string_def eq)
  from eq c l n len nth wr show ?thesis by blast
qed

theorem write_string_report_witness:
  "write_string_payload [72, 105] 1 5 = Inr [0x02, 0x00, 5, 1, 2, 0x00, 0x00, 0x00, 72, 105]
   \<and> write_string mock_hid (plugged []) [72, 105] 1 5 =
       device_write mock_hid (plugged []) [0x02, 0x00, 5, 1, 2, 0x00, 0x00, 0x00, 72, 105]"
  using write_string_report [where line = 1 and cursor = 5 and string = "[72, 105]"
      and H = mock_hid and self = "plugged []"]
  by (simp add: write_string_def write_string_payload_def to_bytes_def lcd_report_def
      cmd_text_def zero_bytes_def encode_def encode_char_def numeral_eq_Suc)

text \<open>
  The length field is not the length of the text when the text is longer than a line:
  41 characters give a length byte of 40.
\<close>

theorem write_string_length_counterexample:
  "write_string_payload (replicate 41 120) 0 0 =
     Inr ([0x02, 0x00, 0x00, 0x00, 40, 0x00, 0x00, 0x00] @ replicate 40 120)
   \<and> length (replicate 41 (120 :: nat)) = 41"
  by (simp add: write_string_payload_def to_bytes_def lcd_report_def cmd_text_def zero_bytes_def
      Let_def encode_def encode_char_def numeral_eq_Suc)

subsection \<open>\<^verbatim>\<open>create_char\<close>: the character report\<close>

text \<open>
  Claim C6, as the code has it. For a location from 0 to 7 and a bitmap of 1 to 48 rows,
  each row a number from 0 to 255, \<^verbatim>\<open>create_char\<close> writes the header
  02 03 startpos 00 length 00 00 00, where startpos is eight times the location and
  length the number of rows, followed by one byte for each row, holding that row.
\<close>

theorem create_char_report:
  assumes "0 \<le> location" and "location \<le> 7"
    and "1 \<le> length bitmap" and "length bitmap \<le> 48"
    and "\<forall>row \<in> set bitmap. 0 \<le> row \<and> row \<le> 255"
  shows "\<exists>payload.
      create_char_payload location bitmap =
        Inr ([0x02, 0x03, word_of_int (location * 8), 0x00, of_nat (length bitmap),
              0x00, 0x00, 0x00] @ payload)
    \<and> uint (word_of_int (location * 8) :: byte) = location * 8
    \<and> unat (of_nat (length bitmap) :: byte) = length bitmap
    \<and> length payload = length bitmap
    \<and> (\<forall>i < length bitmap. uint (payload ! i) = bitmap ! i)
    \<and> create_char H self location bitmap =
        device_write H self
          ([0x02, 0x03, word_of_int (location * 8), 0x00, of_nat (length bitmap),
            0x00, 0x00, 0x00] @ payload)"
proof -
  let ?p = "map word_of_int bitmap :: bytes"
  have eq: "create_char_payload location bitmap =
      Inr ([0x02, 0x03, word_of_int (location * 8), 0x00, of_nat (length bitmap),
            0x00, 0x00, 0x00] @ ?p)"
    by (rule create_char_payload_eq [OF assms])
  have sp: "uint (word_of_int (location * 8) :: byte) = location * 8"
    by (rule byte_of_int) (use assms in auto)
  have n: "unat (of_nat (length bitmap) :: byte) = length bitmap"
    using assms by (simp add: byte_of_nat)
  have nth: "\<forall>i < length bitmap. uint (?p ! i) = bitmap ! i"
  proof (intro allI impI)
    fix i
    assume "i < length bitmap"
    then have "bitmap ! i \<in> set bitmap"
      by simp
    with assms(5) have "0 \<le> bitmap ! i \<and> bitmap ! i \<le> 255"
      by blast
    with \<open>i < length bitmap\<close> show "uint (?p ! i) = bitmap ! i"
      by (simp add: byte_of_int)
  qed
  have wr: "create_char H self location bitmap =
      device_write H self
        ([0x02, 0x03, word_of_int (location * 8), 0x00, of_nat (length bitmap),
          0x00, 0x00, 0x00] @ ?p)"
    by (simp add: create_char_def eq)
  from eq sp n nth wr show ?thesis by (intro exI [of _ ?p]) simp
qed

theorem create_char_report_witness:
  "create_char_payload 2 [0x1F, 0x11, 0] = Inr [0x02, 0x03, 16, 0x00, 3, 0x00, 0x00, 0x00, 0x1F, 0x11, 0]
   \<and> create_char mock_hid (plugged []) 2 [0x1F, 0x11, 0] =
       device_write mock_hid (plugged []) [0x02, 0x03, 16, 0x00, 3, 0x00, 0x00, 0x00, 0x1F, 0x11, 0]"
  using create_char_report [where location = 2 and bitmap = "[0x1F, 0x11, 0]"
      and H = mock_hid and self = "plugged []"]
  by (simp add: create_char_def create_char_payload_def to_bytes_def lcd_report_def
      cmd_char_def zero_bytes_def numeral_eq_Suc)

text \<open>
  A row that does not fit one byte stops the method with \<^verbatim>\<open>OverflowError\<close>: location 0
  with the one-row bitmap 256 writes nothing.
\<close>

theorem create_char_row_counterexample:
  "create_char_payload 0 [256] = Inl OverflowError
   \<and> create_char mock_hid (plugged []) 0 [256] = Inl OverflowError"
  by (simp add: create_char_def create_char_payload_def to_bytes_def)

subsection \<open>\<^verbatim>\<open>clear\<close>\<close>

text \<open>
  Claim C7. \<^verbatim>\<open>clear\<close> writes the same eight bytes, 02 01 and six zero bytes, whatever
  the object and the device are. The packets of the other methods are functions of the
  arguments alone (\<open>write_line_payload\<close>, \<open>write_string_payload\<close>,
  \<open>create_char_payload\<close> take neither the object nor the device), so the same call builds
  the same bytes each time.
\<close>

theorem clear_fixed_report:
  "clear_command = [0x02, 0x01, 0x00, 0x00, 0x00, 0x00, 0x00, 0x00]
   \<and> length clear_command = 8
   \<and> clear H self = device_write H self [0x02, 0x01, 0x00, 0x00, 0x00, 0x00, 0x00, 0x00]"
  by (simp add: clear_def clear_command_def lcd_report_def cmd_clear_def zero_bytes_def
      numeral_eq_Suc)

subsection \<open>Arguments out of range\<close>

text \<open>
  Claim C5. A line other than 0 and 1 makes \<^verbatim>\<open>write_line\<close> and \<^verbatim>\<open>write_string\<close> fail
  with the assertion's error, a cursor outside 0 to 39 makes \<^verbatim>\<open>write_string\<close> fail, a
  location outside 0 to 7 or a bitmap of fewer than 1 or more than 48 rows makes
  \<^verbatim>\<open>create_char\<close> fail. The failure is the \<^verbatim>\<open>AssertionError\<close> of the violated
  precondition, whatever the device is: nothing is clamped and nothing is written.
\<close>

theorem out_of_range_arguments_fail:
  "(\<not> (0 \<le> line \<and> line \<le> 1) \<longrightarrow>
      write_line H self string line = Inl (AssertionError ''Line must be 0 or 1.'')
    \<and> write_string H self string line cursor = Inl (AssertionError ''Line must be 0 or 1''))
   \<and> (0 \<le> line \<and> line \<le> 1 \<and> \<not> (0 \<le> cursor \<and> cursor \<le> 39) \<longrightarrow>
      write_string H self string line cursor = Inl (AssertionError ''Cursor must be 0-39''))
   \<and> (\<not> (0 \<le> location \<and> location \<le> 7) \<longrightarrow>
      create_char H self location bitmap = Inl (AssertionError ''Only locations 0-7 can be used''))
   \<and> (0 \<le> location \<and> location \<le> 7 \<and> \<not> (1 \<le> length bitmap \<and> length bitmap \<le> 48) \<longrightarrow>
      create_char H self location bitmap = Inl (AssertionError ''Bitmap should have 1-48 rows''))"
  by (simp add: write_line_def write_line_payload_def write_string_def write_string_payload_def
      create_char_def create_char_payload_def)

theorem out_of_range_arguments_fail_witness:
  "write_line mock_hid (plugged []) [72, 105] 2 = Inl (AssertionError ''Line must be 0 or 1.'')
   \<and> write_string mock_hid (plugged []) [72, 105] (- 1) 0 = Inl (AssertionError ''Line must be 0 or 1'')
   \<and> write_string mock_hid (plugged []) [72, 105] 1 40 = Inl (AssertionError ''Cursor must be 0-39'')
   \<and> create_char mock_hid (plugged []) 8 [0x1F] = Inl (AssertionError ''Only locations 0-7 can be used'')
   \<and> create_char mock_hid (plugged []) 0 [] = Inl (AssertionError ''Bitmap should have 1-48 rows'')
   \<and> create_char mock_hid (plugged []) 0 (replicate 49 0) =
       Inl (AssertionError ''Bitmap should have 1-48 rows'')"
  using out_of_range_arguments_fail [where line = 2 and cursor = 0 and location = 8
      and bitmap = "[0x1F]" and string = "[72, 105]" and H = mock_hid and self = "plugged []"]
    out_of_range_arguments_fail [where line = "- 1" and cursor = 0 and location = 0
      and bitmap = "[]" and string = "[72, 105]" and H = mock_hid and self = "plugged []"]
    out_of_range_arguments_fail [where line = 1 and cursor = 40 and location = 0
      and bitmap = "replicate 49 0" and string = "[72, 105]" and H = mock_hid and self = "plugged []"]
  by simp

subsection \<open>\<^verbatim>\<open>read\<close>: the key reports\<close>

text \<open>
  Claim C3, as the code has it. \<^verbatim>\<open>read\<close> compares the whole report with three byte
  strings: it returns \<^verbatim>\<open>'select'\<close> exactly when the report is 01 02 3A, \<^verbatim>\<open>'right'\<close>
  exactly when it is 01 02 3B, \<^verbatim>\<open>'left'\<close> exactly when it is 01 02 3C, and \<^verbatim>\<open>None\<close>
  for every other report. Without the beep it always returns; with the beep this is the
  value whenever it returns.
\<close>

theorem read_matches_whole_report:
  assumes "device_read H self 6 timeout = Inr (keycode, self')"
  shows "(\<exists>res out. read H call self timeout False = Inr (res, out, self')
          \<and> (res = Some ''select'' \<longleftrightarrow> keycode = [0x01, 0x02, 0x3A])
          \<and> (res = Some ''right'' \<longleftrightarrow> keycode = [0x01, 0x02, 0x3B])
          \<and> (res = Some ''left'' \<longleftrightarrow> keycode = [0x01, 0x02, 0x3C])
          \<and> (res = None \<longleftrightarrow> keycode \<notin> key_reports))
       \<and> (\<forall>res out s. read H call self timeout True = Inr (res, out, s) \<longrightarrow>
            (res = Some ''select'' \<longleftrightarrow> keycode = [0x01, 0x02, 0x3A])
          \<and> (res = Some ''right'' \<longleftrightarrow> keycode = [0x01, 0x02, 0x3B])
          \<and> (res = Some ''left'' \<longleftrightarrow> keycode = [0x01, 0x02, 0x3C])
          \<and> (res = None \<longleftrightarrow> keycode \<notin> key_reports))"
proof (intro conjI allI impI)
  show "\<exists>res out. read H call self timeout False = Inr (res, out, self')
          \<and> (res = Some ''select'' \<longleftrightarrow> keycode = [0x01, 0x02, 0x3A])
          \<and> (res = Some ''right'' \<longleftrightarrow> keycode = [0x01, 0x02, 0x3B])
          \<and> (res = Some ''left'' \<longleftrightarrow> keycode = [0x01, 0x02, 0x3C])
          \<and> (res = None \<longleftrightarrow> keycode \<notin> key_reports)"
    by (simp add: read_after_device_read [OF assms] read_keycode_silent key_reports_def)
next
  fix res out s
  assume r: "read H call self timeout True = Inr (res, out, s)"
  then obtain out' where "read_keycode call keycode True = Inr (res, out')"
    by (auto simp: read_after_device_read [OF assms] split: sum.splits)
  then have v: "res = (if keycode = [0x01, 0x02, 0x3A] then Some ''select''
          else if keycode = [0x01, 0x02, 0x3B] then Some ''right''
          else if keycode = [0x01, 0x02, 0x3C] then Some ''left''
          else None)"
    by (rule read_keycode_value)
  show "res = Some ''select'' \<longleftrightarrow> keycode = [0x01, 0x02, 0x3A]"
    by (simp add: v)
  show "res = Some ''right'' \<longleftrightarrow> keycode = [0x01, 0x02, 0x3B]"
    by (simp add: v)
  show "res = Some ''left'' \<longleftrightarrow> keycode = [0x01, 0x02, 0x3C]"
    by (simp add: v)
  show "res = None \<longleftrightarrow> keycode \<notin> key_reports"
    by (simp add: v key_reports_def)
qed

theorem read_matches_whole_report_witness:
  "device_read mock_hid (plugged [[0x01, 0x02, 0x3B]]) 6 None = Inr ([0x01, 0x02, 0x3B], plugged [])
   \<and> read mock_hid beep_installed (plugged [[0x01, 0x02, 0x3B]]) None False =
       Inr (Some ''right'', [], plugged [])
   \<and> read mock_hid beep_installed (plugged [[0x01, 0x02, 0x3B]]) None True =
       Inr (Some ''right'', [Called [''/usr/bin/beep'', ''-f 500'', ''-l 10'']], plugged [])"
  using read_matches_whole_report [where H = mock_hid and self = "plugged [[0x01, 0x02, 0x3B]]"
      and timeout = None and keycode = "[0x01, 0x02, 0x3B]" and self' = "plugged []"
      and call = beep_installed]
  by (simp add: mock_read read_def read_keycode_def beep_call_def beep_installed_def)

text \<open>
  A report that only ends in 02 3A is not the select key: 05 02 3A and 02 3A are printed,
  and \<^verbatim>\<open>read\<close> returns \<^verbatim>\<open>None\<close>.
\<close>

theorem read_suffix_counterexample:
  "read mock_hid beep_installed (plugged [[0x05, 0x02, 0x3A]]) None False =
     Inr (None, [Printed [0x05, 0x02, 0x3A]], plugged [])
   \<and> read mock_hid beep_installed (plugged [[0x02, 0x3A]]) None False =
     Inr (None, [Printed [0x02, 0x3A]], plugged [])"
  by (simp add: mock_read read_def read_keycode_def)

text \<open>
  Claim C4, as the code has it. For a report that is none of the three, \<^verbatim>\<open>read\<close> prints
  the bytes it has read and returns \<^verbatim>\<open>None\<close>, with or without the beep and whatever
  \<^verbatim>\<open>subprocess.call\<close> would do. The caller sees that no key was recognised; the bytes
  go to the standard output, not to the caller.
\<close>

theorem read_unrecognized_prints:
  assumes "device_read H self 6 timeout = Inr (keycode, self')"
    and "keycode \<notin> key_reports"
  shows "read H call self timeout beep = Inr (None, [Printed keycode], self')"
  by (simp add: read_after_device_read [OF assms(1)] read_keycode_unknown [OF assms(2)])

theorem read_unrecognized_prints_witness:
  "device_read mock_hid (plugged [[0x07]]) 6 None = Inr ([0x07], plugged [])
   \<and> [0x07] \<notin> key_reports
   \<and> read mock_hid beep_missing (plugged [[0x07]]) None True =
       Inr (None, [Printed [0x07]], plugged [])"
  using read_unrecognized_prints [where H = mock_hid and self = "plugged [[0x07]]"
      and timeout = None and keycode = "[0x07]" and self' = "plugged []"
      and call = beep_missing and beep = True]
  by (simp add: mock_read key_reports_def)

text \<open>
  The value returned does not carry the report: two different unrecognised reports return
  the same \<^verbatim>\<open>None\<close>.
\<close>

theorem read_unrecognized_counterexample:
  "returned (read mock_hid beep_installed (plugged [[0x07]]) None False) = Inr None
   \<and> returned (read mock_hid beep_installed (plugged [[0x09]]) None False) = Inr None
   \<and> [0x07 :: byte] \<noteq> [0x09]"
  by (simp add: returned_def mock_read read_def read_keycode_def)

text \<open>
  Claim C10, as the code has it. Provided \<^verbatim>\<open>subprocess.call\<close> returns (with any exit
  status), \<^verbatim>\<open>read\<close> with the beep and \<^verbatim>\<open>read\<close> without it return the same value
  on the same object, or raise the same exception of the device.
\<close>

theorem read_value_independent_of_beep:
  assumes "\<forall>args. \<exists>status. call args = Inr status"
  shows "returned (read H call self timeout True) = returned (read H call self timeout False)"
proof (cases "device_read H self 6 timeout")
  case (Inl e)
  then show ?thesis by (simp add: read_def)
next
  case (Inr p)
  obtain keycode self' where p: "p = (keycode, self')" by (cases p)
  have k: "map_sum id fst (read_keycode call keycode True) =
      map_sum id fst (read_keycode call keycode False)"
    using assms
    by (auto simp: read_keycode_def beep_call_def split: sum.splits) (metis sum.distinct(1))+
  show ?thesis
    using k by (auto simp: returned_def read_def Inr p split: sum.splits)
qed

theorem read_value_independent_of_beep_witness:
  "returned (read mock_hid beep_installed (plugged [[0x01, 0x02, 0x3A]]) None True) = Inr (Some ''select'')
   \<and> returned (read mock_hid beep_installed (plugged [[0x01, 0x02, 0x3A]]) None False) = Inr (Some ''select'')"
proof -
  have h: "\<forall>args. \<exists>status. beep_installed args = Inr status"
    by (simp add: beep_installed_def)
  show ?thesis
    using read_value_independent_of_beep [OF h, where H = mock_hid
        and self = "plugged [[0x01, 0x02, 0x3A]]" and timeout = None]
    by (simp add: returned_def mock_read read_def read_keycode_def beep_call_def)
qed

text \<open>
  When the beep command cannot be started, \<^verbatim>\<open>subprocess.call\<close> raises and so does
  \<^verbatim>\<open>read\<close> with the beep, on the report for which \<^verbatim>\<open>read\<close> without the beep returns
  \<^verbatim>\<open>'select'\<close>.
\<close>

theorem read_beep_counterexample:
  "read mock_hid beep_missing (plugged [[0x01, 0x02, 0x3A]]) None True =
     Inl (OSError ''No such file or directory'')
   \<and> read mock_hid beep_missing (plugged [[0x01, 0x02, 0x3A]]) None False =
     Inr (Some ''select'', [], plugged [])"
  by (simp add: mock_read read_def read_keycode_def beep_call_def beep_missing_def)

subsection \<open>\<^verbatim>\<open>close\<close>\<close>






end
